theory Spec2Isabelle
  imports Complex_Main "HOL-Library.Sublist" "HOL-Library.AList"
    "HOL-Library.List_Lexorder" "HOL-Library.Char_ord"
begin

section \<open>Python values used by the sandbox\<close>

text \<open>
  The sandbox manager (\<^verbatim>\<open>sandbox_manager.py\<close>) and the idle scheduler
  (\<^verbatim>\<open>sandbox_autorun.py\<close>) are embedded as functions over an explicit file
  system. Every call of the operating system or of a library whose outcome the program
  cannot decide (a temporary directory, a clock, a random suffix, a child process, a
  write that may fail) is an input of the model, so that every theorem holds for all
  outcomes. Exceptions are values: a function that may raise returns \<open>exn + 'a\<close>.
\<close>

type_synonym path = string

text \<open>The exceptions that cross the functions modelled here. Each is a subclass of
  Python's \<^verbatim>\<open>Exception\<close>, so \<^verbatim>\<open>except Exception\<close> catches every one of them;
  \<open>TimeoutExpired\<close> is the one \<^verbatim>\<open>subprocess.run\<close> raises at its deadline; it
  carries what the child had written by then.\<close>

datatype exn =
    OSError string
  | TypeError string
  | AttributeError string
  | ValueError string
  | TimeoutExpired "string option"

fun str_exn :: "exn \<Rightarrow> string" where
  "str_exn (OSError m) = m"
| "str_exn (TypeError m) = m"
| "str_exn (AttributeError m) = m"
| "str_exn (ValueError m) = m"
| "str_exn (TimeoutExpired partial) = ''timed out''"

text \<open>JSON documents as \<^verbatim>\<open>json.loads\<close> returns them; an object is a dictionary,
  written as an association list read with \<^const>\<open>map_of\<close>.\<close>

datatype json =
    JNull
  | JBool bool
  | JNum real
  | JStr string
  | JArr "json list"
  | JObj "(string \<times> json) list"

subsection \<open>Paths\<close>

text \<open>
  Paths are POSIX strings. \<open>basename\<close> is \<^verbatim>\<open>os.path.basename\<close> (everything after
  the last slash), \<open>path_name\<close> is \<^verbatim>\<open>Path(p).name\<close> (the last component that is
  neither empty nor a dot), \<open>pjoin\<close> is pathlib's \<^verbatim>\<open>/\<close> for a relative right
  operand, \<open>endswith\<close> is \<^verbatim>\<open>str.endswith\<close>.
\<close>

definition basename :: "path \<Rightarrow> string" where
  "basename p = rev (takeWhile (\<lambda>c. c \<noteq> CHR ''/'') (rev p))"

fun split_slash :: "string \<Rightarrow> string list" where
  "split_slash [] = [[]]"
| "split_slash (c # cs) =
     (if c = CHR ''/'' then [] # split_slash cs
      else (case split_slash cs of [] \<Rightarrow> [[c]] | w # ws \<Rightarrow> (c # w) # ws))"

definition path_name :: "path \<Rightarrow> string" where
  "path_name p =
     (case filter (\<lambda>w. w \<noteq> [] \<and> w \<noteq> ''.'') (split_slash p) of
        [] \<Rightarrow> []
      | w # ws \<Rightarrow> last (w # ws))"

definition endswith :: "string \<Rightarrow> string \<Rightarrow> bool" where
  "endswith s suf = suffix suf s"

definition startswith :: "string \<Rightarrow> string \<Rightarrow> bool" where
  "startswith s pre = prefix pre s"

definition pjoin :: "path \<Rightarrow> string \<Rightarrow> path" where
  "pjoin d n = (if n = [] \<or> n = ''.'' then d else d @ ''/'' @ n)"

text \<open>\<open>path_suffix\<close> is \<^verbatim>\<open>Path.suffix\<close> of a file name: the text from the last dot,
  unless that dot is the first or the last character.\<close>

definition path_suffix :: "string \<Rightarrow> string" where
  "path_suffix n =
     (let tl = rev (takeWhile (\<lambda>c. c \<noteq> CHR ''.'') (rev n)) in
      if CHR ''.'' \<in> set n \<and> tl \<noteq> [] \<and> length tl + 1 < length n
      then CHR ''.'' # tl else [])"

subsection \<open>The host\<close>

text \<open>
  What is fixed for one run of the program: the directory of the module
  (\<^verbatim>\<open>BASE\<close>), the interpreter, the process environment, the two functions of
  the \<^verbatim>\<open>json\<close> library, the decoder of the locale with which
  \<^verbatim>\<open>subprocess.run(text=True)\<close> turns the bytes of a pipe into text, and which
  paths are directories. All are parameters.
\<close>

record host =
  BASE :: path
  sys_executable :: string
  os_environ :: "string \<rightharpoonup> string"
  json_dumps :: "json \<Rightarrow> string"
  json_loads :: "string \<Rightarrow> exn + json"
  text_decode :: "string \<Rightarrow> exn + string"
  is_dir :: "path \<Rightarrow> bool"

definition SANDBOX_ROOT :: "host \<Rightarrow> path" where
  "SANDBOX_ROOT h = pjoin (BASE h) ''sandbox''"

definition FILES_DIR :: "host \<Rightarrow> path" where
  "FILES_DIR h = pjoin (SANDBOX_ROOT h) ''files''"

definition LOGS_DIR :: "host \<Rightarrow> path" where
  "LOGS_DIR h = pjoin (SANDBOX_ROOT h) ''logs''"

definition PENDING_DIR :: "host \<Rightarrow> path" where
  "PENDING_DIR h = pjoin (SANDBOX_ROOT h) ''pending''"

subsection \<open>The environment of the child process\<close>

definition allow_list :: "string list" where
  "allow_list = [''SYSTEMROOT'', ''PATH'', ''TMP'', ''TEMP'']"

text \<open>\<^verbatim>\<open>_safe_env\<close>: the loop copies the allow-listed variables that the host
  defines; the unbuffered flag is then set whatever the host says.\<close>

definition safe_env :: "(string \<rightharpoonup> string) \<Rightarrow> (string \<rightharpoonup> string)" where
  "safe_env environ =
     (foldl (\<lambda>env k. case environ k of Some v \<Rightarrow> env(k \<mapsto> v) | None \<Rightarrow> env)
        Map.empty allow_list)
     (''PYTHONUNBUFFERED'' \<mapsto> ''1'')"

subsection \<open>The file system\<close>

text \<open>
  The regular files, as an association list from path to text with distinct keys; its
  order is the order in which a directory is enumerated. The directories are those of
  the host: \<^verbatim>\<open>Path.exists\<close> is true of a regular file and of a directory, and
  reading a directory fails. An operation that the operating system may refuse takes
  its outcome as an argument (\<open>None\<close>: it succeeded); for a read this covers a file
  whose bytes do not decode and one that may not be read.
\<close>

type_synonym fs = "(path \<times> string) list"

definition path_exists :: "host \<Rightarrow> fs \<Rightarrow> path \<Rightarrow> bool" where
  "path_exists h st p = (map_of st p \<noteq> None \<or> is_dir h p)"

definition read_text :: "exn option \<Rightarrow> host \<Rightarrow> fs \<Rightarrow> path \<Rightarrow> exn + string" where
  "read_text r h st p =
     (case r of
        Some x \<Rightarrow> Inl x
      | None \<Rightarrow>
          (case map_of st p of
             Some c \<Rightarrow> Inr c
           | None \<Rightarrow>
               if is_dir h p then Inl (OSError (''Is a directory: '' @ p))
               else Inl (OSError (''No such file or directory: '' @ p))))"

definition write_text :: "exn option \<Rightarrow> fs \<Rightarrow> path \<Rightarrow> string \<Rightarrow> (exn + unit) \<times> fs" where
  "write_text r st p c =
     (case r of Some e \<Rightarrow> (Inl e, st) | None \<Rightarrow> (Inr (), AList.update p c st))"

definition under :: "path \<Rightarrow> path \<Rightarrow> bool" where
  "under d p = prefix (d @ ''/'') p"

definition rmtree :: "exn option \<Rightarrow> fs \<Rightarrow> path \<Rightarrow> (exn + unit) \<times> fs" where
  "rmtree r st d =
     (case r of
        Some e \<Rightarrow> (Inl e, st)
      | None \<Rightarrow> (Inr (), filter (\<lambda>(p, c). \<not> under d p) st))"

text \<open>The names of the files directly inside a directory, in enumeration order
  (\<^verbatim>\<open>iterdir\<close>).\<close>

definition iterdir :: "fs \<Rightarrow> path \<Rightarrow> string list" where
  "iterdir st d =
     map (\<lambda>p. drop (length d + 1) p)
       (filter (\<lambda>p. under d p \<and> CHR ''/'' \<notin> set (drop (length d + 1) p)
                    \<and> drop (length d + 1) p \<noteq> [])
          (map fst st))"

subsection \<open>Child processes\<close>

text \<open>
  \<^verbatim>\<open>subprocess.run\<close> as the program calls it. The child is an input: a function from
  the arguments it is launched with to what it does, which is to exit with a status
  after writing chunks of text to its two streams, to be still running at the deadline
  (having written some chunks), or to fail to be launched. The chunks are bytes.
  \<open>captured\<close> is the library's plumbing of the streams: with \<^verbatim>\<open>stdout=PIPE\<close> the
  pipe receives the chunks of standard output and, with \<^verbatim>\<open>stderr=STDOUT\<close>, those
  of standard error too, in the order written. With \<^verbatim>\<open>text=True\<close> the bytes of the
  pipe are decoded, which raises when they are not text, and every CR LF and every
  other CR of the text becomes LF (\<open>universal_newlines\<close>).
\<close>

datatype fd = Out | Err

datatype redirect = PIPE | STDOUT | INHERIT

record spawn_args =
  cmd :: "string list"
  arg_stdout :: redirect
  arg_stderr :: redirect
  arg_timeout :: int
  arg_text :: bool
  arg_env :: "string \<rightharpoonup> string"
  arg_cwd :: path

datatype child_outcome =
    Exited int "(fd \<times> string) list"
  | Hung "(fd \<times> string) list"
  | Failed exn

record completed =
  returncode :: int
  stdout :: "string option"

definition captured :: "spawn_args \<Rightarrow> (fd \<times> string) list \<Rightarrow> string option" where
  "captured a chunks =
     (if arg_stdout a = PIPE
      then Some (concat (map snd
             (filter (\<lambda>(f, t). f = Out \<or> (f = Err \<and> arg_stderr a = STDOUT)) chunks)))
      else None)"

fun universal_newlines :: "string \<Rightarrow> string" where
  "universal_newlines [] = []"
| "universal_newlines [c] = [if c = CHR 0x0D then CHR 0x0A else c]"
| "universal_newlines (c # d # cs) =
     (if c = CHR 0x0D
      then (if d = CHR 0x0A then CHR 0x0A # universal_newlines cs
            else CHR 0x0A # universal_newlines (d # cs))
      else c # universal_newlines (d # cs))"

definition decoded :: "host \<Rightarrow> spawn_args \<Rightarrow> string \<Rightarrow> exn + string" where
  "decoded h a bytes =
     (if arg_text a
      then (case text_decode h bytes of
              Inl x \<Rightarrow> Inl x
            | Inr s \<Rightarrow> Inr (universal_newlines s))
      else Inr bytes)"

definition subprocess_run ::
  "host \<Rightarrow> (spawn_args \<Rightarrow> child_outcome) \<Rightarrow> spawn_args \<Rightarrow> exn + completed" where
  "subprocess_run h ch a =
     (case ch a of
        Exited rc chunks \<Rightarrow>
          (case captured a chunks of
             None \<Rightarrow> Inr \<lparr>returncode = rc, stdout = None\<rparr>
           | Some bytes \<Rightarrow>
               (case decoded h a bytes of
                  Inl x \<Rightarrow> Inl x
                | Inr s \<Rightarrow> Inr \<lparr>returncode = rc, stdout = Some s\<rparr>))
      | Hung chunks \<Rightarrow> Inl (TimeoutExpired (captured a chunks))
      | Failed x \<Rightarrow> Inl x)"

section \<open>The execution engine\<close>

text \<open>
  What one call of \<^verbatim>\<open>run_code_snippet\<close> or \<^verbatim>\<open>run_project_by_name\<close> gets from
  outside, in the order it asks: whether the file to run can be read (the project file;
  for a task of the scheduler, the task file, which the scheduler reads itself before it
  calls \<^verbatim>\<open>run_code_snippet\<close>), the temporary directory, whether the script can be
  written, the child, the two clock readings, the two time stamps and the random suffix
  of the log, whether the log can be written, whether the directory can be removed.
\<close>

record run_env =
  read_r :: "exn option"
  mkdtemp_r :: "exn + path"
  script_write_r :: "exn option"
  child :: "spawn_args \<Rightarrow> child_outcome"
  time_start :: real
  time_end :: real
  timestamp_name :: string
  uuid_hex :: string
  timestamp_field :: string
  log_write_r :: "exn option"
  rmtree_r :: "exn option"

text \<open>The dictionary both functions return; a key that is absent is \<open>None\<close>. The key
  \<^verbatim>\<open>output\<close> is the field \<open>output_text\<close>.\<close>

record result =
  ok :: bool
  output_text :: "string option"
  error :: "string option"
  elapsed :: "real option"

definition sandbox_args :: "host \<Rightarrow> path \<Rightarrow> int \<Rightarrow> path \<Rightarrow> spawn_args" where
  "sandbox_args h script timeout tmpdir =
     \<lparr>cmd = [sys_executable h, ''-I'', script],
      arg_stdout = PIPE, arg_stderr = STDOUT, arg_timeout = timeout, arg_text = True,
      arg_env = safe_env (os_environ h), arg_cwd = tmpdir\<rparr>"

text \<open>The body of the \<^verbatim>\<open>try\<close> from the call of \<^verbatim>\<open>subprocess.run\<close> on, and the
  two \<^verbatim>\<open>except\<close> clauses, in the order of the source.\<close>

definition launch :: "host \<Rightarrow> run_env \<Rightarrow> path \<Rightarrow> int \<Rightarrow> path \<Rightarrow> exn + result" where
  "launch h e script timeout tmpdir =
     (case subprocess_run h (child e) (sandbox_args h script timeout tmpdir) of
        Inl x \<Rightarrow> Inl x
      | Inr proc \<Rightarrow>
          Inr \<lparr>ok = True,
               output_text = Some (case stdout proc of None \<Rightarrow> [] | Some s \<Rightarrow> s),
               error = None,
               elapsed = Some (time_end e - time_start e)\<rparr>)"

definition handler :: "exn \<Rightarrow> result" where
  "handler x =
     (case x of
        TimeoutExpired partial \<Rightarrow>
          \<lparr>ok = False, output_text = Some [], error = Some ''timeout'', elapsed = None\<rparr>
      | _ \<Rightarrow>
          \<lparr>ok = False, output_text = Some [], error = Some (str_exn x), elapsed = None\<rparr>)"

definition jstr_opt :: "string option \<Rightarrow> json" where
  "jstr_opt v = (case v of None \<Rightarrow> JNull | Some s \<Rightarrow> JStr s)"

definition jnum_opt :: "real option \<Rightarrow> json" where
  "jnum_opt v = (case v of None \<Rightarrow> JNull | Some s \<Rightarrow> JNum s)"

definition log_name :: "run_env \<Rightarrow> string" where
  "log_name e = timestamp_name e @ ''_'' @ take 6 (uuid_hex e) @ ''.json''"

text \<open>The log record of a snippet. Every result that reaches the \<^verbatim>\<open>finally\<close> has
  an output, of which the record keeps the first 10000 characters.\<close>

definition snippet_log :: "run_env \<Rightarrow> result \<Rightarrow> string \<Rightarrow> json" where
  "snippet_log e r code =
     JObj [(''ts'', JStr (timestamp_field e)),
           (''type'', JStr ''snippet''),
           (''ok'', JBool (ok r)),
           (''error'', jstr_opt (error r)),
           (''elapsed'', jnum_opt (elapsed r)),
           (''output'', jstr_opt (map_option (take 10000) (output_text r))),
           (''code_preview'', JStr (take 2000 code))]"

definition project_log :: "run_env \<Rightarrow> result \<Rightarrow> string \<Rightarrow> json" where
  "project_log e r safe =
     JObj [(''ts'', JStr (timestamp_field e)),
           (''type'', JStr ''project''),
           (''project'', JStr safe),
           (''ok'', JBool (ok r)),
           (''error'', jstr_opt (error r)),
           (''elapsed'', jnum_opt (elapsed r)),
           (''output'', jstr_opt (map_option (take 10000) (output_text r)))]"

text \<open>
  \<^verbatim>\<open>run_code_snippet\<close>. \<^verbatim>\<open>mkdtemp\<close> is called before the \<^verbatim>\<open>try\<close>, so its
  failure is raised to the caller. Inside the \<^verbatim>\<open>try\<close> the script is written and
  the child is run; either failure is turned into a result by the \<^verbatim>\<open>except\<close>
  clauses. The \<^verbatim>\<open>finally\<close> writes the log and removes the directory, each inside
  its own \<^verbatim>\<open>try\<close> whose failure is dropped.
\<close>

definition run_code_snippet :: "host \<Rightarrow> run_env \<Rightarrow> string \<Rightarrow> int \<Rightarrow> fs \<Rightarrow> (exn + result) \<times> fs" where
  "run_code_snippet h e code timeout st =
     (case mkdtemp_r e of
        Inl x \<Rightarrow> (Inl x, st)
      | Inr tmpdir \<Rightarrow>
          let script_path = pjoin tmpdir ''script.py'';
              (w, st1) = write_text (script_write_r e) st script_path code;
              r = (case w of
                     Inl x \<Rightarrow> handler x
                   | Inr u \<Rightarrow>
                       (case launch h e script_path timeout tmpdir of
                          Inl x \<Rightarrow> handler x
                        | Inr r \<Rightarrow> r));
              log_path = pjoin (LOGS_DIR h) (log_name e);
              (lw, st2) = write_text (log_write_r e) st1 log_path
                            (json_dumps h (snippet_log e r code));
              (rw, st3) = rmtree (rmtree_r e) st2 tmpdir
          in (Inr r, st3))"

section \<open>The project store\<close>



text \<open>
  \<^verbatim>\<open>list_projects\<close>: the entries of the store, most recently modified first
  (\<^verbatim>\<open>sorted\<close> is stable also with \<^verbatim>\<open>reverse=True\<close>), of which those with the
  suffix \<^verbatim>\<open>.py\<close> are reported. The times of the files are inputs.
\<close>

record project =
  proj_name :: string
  proj_size :: nat
  proj_created :: string

record stat_env =
  st_mtime :: "path \<Rightarrow> real"
  st_ctime_iso :: "path \<Rightarrow> string"

definition list_projects :: "host \<Rightarrow> stat_env \<Rightarrow> fs \<Rightarrow> project list" where
  "list_projects h se st =
     map (\<lambda>n. \<lparr>proj_name = n,
                proj_size = (case map_of st (pjoin (FILES_DIR h) n) of
                               None \<Rightarrow> 0 | Some c \<Rightarrow> length c),
                proj_created = st_ctime_iso se (pjoin (FILES_DIR h) n)\<rparr>)
       (filter (\<lambda>n. path_suffix n = ''.py'')
          (rev (sort_key (\<lambda>n. st_mtime se (pjoin (FILES_DIR h) n))
                  (rev (iterdir st (FILES_DIR h))))))"

text \<open>
  \<^verbatim>\<open>run_project_by_name\<close>. A path that does not exist is reported at once. The
  file is read, and the copy of the script is written, before the \<^verbatim>\<open>try\<close>, so a
  failure of either is raised; the read fails when the path is a directory. In the
  \<^verbatim>\<open>finally\<close> the log is written outside any \<^verbatim>\<open>try\<close>: its failure is raised
  in place of the result, and the directory is then not removed.
\<close>

definition run_project_by_name :: "host \<Rightarrow> run_env \<Rightarrow> string \<Rightarrow> int \<Rightarrow> fs \<Rightarrow> (exn + result) \<times> fs" where
  "run_project_by_name h e name timeout st =
     (let safe = basename name;
          path = pjoin (FILES_DIR h) safe in
      if \<not> path_exists h st path
      then (Inr \<lparr>ok = False, output_text = None, error = Some ''not found'', elapsed = None\<rparr>, st)
      else
        (case read_text (read_r e) h st path of
           Inl x \<Rightarrow> (Inl x, st)
         | Inr code \<Rightarrow>
             (case mkdtemp_r e of
                Inl x \<Rightarrow> (Inl x, st)
              | Inr tmpdir \<Rightarrow>
                  let script_copy = pjoin tmpdir safe in
                  (case write_text (script_write_r e) st script_copy code of
                     (Inl x, st1) \<Rightarrow> (Inl x, st1)
                   | (Inr u, st1) \<Rightarrow>
                       let r = (case launch h e script_copy timeout tmpdir of
                                  Inl x \<Rightarrow> handler x
                                | Inr r \<Rightarrow> r);
                           log_path = pjoin (LOGS_DIR h) (log_name e)
                       in (case write_text (log_write_r e) st1 log_path
                                   (json_dumps h (project_log e r safe)) of
                             (Inl x, st2) \<Rightarrow> (Inl x, st2)
                           | (Inr u, st2) \<Rightarrow>
                               let (rw, st3) = rmtree (rmtree_r e) st2 tmpdir
                               in (Inr r, st3))))))"

section \<open>The pending queue and the approval workflow\<close>

definition unlink :: "exn option \<Rightarrow> bool \<Rightarrow> fs \<Rightarrow> path \<Rightarrow> (exn + unit) \<times> fs" where
  "unlink r missing_ok st p =
     (case r of
        Some x \<Rightarrow> (Inl x, st)
      | None \<Rightarrow>
          if map_of st p = None \<and> \<not> missing_ok
          then (Inl (OSError (''No such file or directory: '' @ p)), st)
          else (Inr (), AList.delete p st))"

text \<open>\<^verbatim>\<open>shutil.move\<close> to a path that is not a directory: a rename. For a regular file
  it replaces the target and is no change when the two paths are the same; for a
  directory it takes every file beneath it along.\<close>

definition shutil_move ::
  "exn option \<Rightarrow> host \<Rightarrow> fs \<Rightarrow> path \<Rightarrow> path \<Rightarrow> (exn + unit) \<times> fs" where
  "shutil_move r h st src dst =
     (case r of
        Some x \<Rightarrow> (Inl x, st)
      | None \<Rightarrow>
          (case map_of st src of
             Some c \<Rightarrow>
               (Inr (), if src = dst then st else AList.update dst c (AList.delete src st))
           | None \<Rightarrow>
               if is_dir h src
               then (Inr (), if src = dst then st
                             else map (\<lambda>(p, c). if under src p
                                               then (dst @ drop (length src) p, c)
                                               else (p, c)) st)
               else (Inl (OSError (''No such file or directory: '' @ src)), st)))"

text \<open>What one call of \<^verbatim>\<open>create_pending_request\<close> gets from outside.\<close>

record submit_env =
  submit_ts_field :: string
  submit_ts_name :: string
  submit_uuid_hex :: string
  code_write_r :: "exn option"
  request_write_r :: "exn option"

record submitted =
  submitted_ok :: bool
  request_file :: path

definition pending_fname :: "submit_env \<Rightarrow> string \<Rightarrow> string" where
  "pending_fname e name =
     (let fname = submit_ts_name e @ ''_'' @ take 6 (submit_uuid_hex e) @ ''_'' @ name in
      if \<not> endswith fname ''.py'' then fname @ ''.py'' else fname)"

definition pending_request :: "submit_env \<Rightarrow> string \<Rightarrow> string \<Rightarrow> string \<Rightarrow> path \<Rightarrow> json" where
  "pending_request e name code reason fullpath =
     JObj [(''ts'', JStr (submit_ts_field e)),
           (''name'', JStr name),
           (''reason'', JStr reason),
           (''code_preview'', JStr (take 4000 code)),
           (''code_full_path'', JStr fullpath)]"

definition create_pending_request ::
  "host \<Rightarrow> submit_env \<Rightarrow> string \<Rightarrow> string \<Rightarrow> string \<Rightarrow> fs \<Rightarrow> (exn + submitted) \<times> fs" where
  "create_pending_request h e name code reason st =
     (let fname = pending_fname e name;
          fullpath = pjoin (PENDING_DIR h) fname in
      case write_text (code_write_r e) st fullpath code of
        (Inl x, st1) \<Rightarrow> (Inl x, st1)
      | (Inr u, st1) \<Rightarrow>
          let reqpath = pjoin (PENDING_DIR h) (fname @ ''.request.json'') in
          (case write_text (request_write_r e) st1 reqpath
                  (json_dumps h (pending_request e name code reason fullpath)) of
             (Inl x, st2) \<Rightarrow> (Inl x, st2)
           | (Inr u, st2) \<Rightarrow> (Inr \<lparr>submitted_ok = True, request_file = reqpath\<rparr>, st2)))"

text \<open>
  \<^verbatim>\<open>approve_request\<close>. Only reading and parsing the descriptor are inside the
  \<^verbatim>\<open>try\<close>. \<^verbatim>\<open>req.get\<close> needs a dictionary and \<^verbatim>\<open>Path\<close> needs a string: a
  descriptor that parses to anything else raises \<open>AttributeError\<close> or \<open>TypeError\<close>
  to the caller. The move is outside any \<^verbatim>\<open>try\<close>; the removal of the descriptor is
  inside one whose failure is dropped. The dictionary returned has the keys
  \<^verbatim>\<open>ok\<close>, \<^verbatim>\<open>error\<close> and \<^verbatim>\<open>approved_path\<close>.
\<close>

record approve_env =
  move_r :: "exn option"
  unlink_r :: "exn option"

record approval =
  approval_ok :: bool
  approval_error :: "string option"
  approved_path :: "path option"

definition load_request :: "host \<Rightarrow> fs \<Rightarrow> path \<Rightarrow> exn + json" where
  "load_request h st req_file =
     (case read_text None h st req_file of
        Inl x \<Rightarrow> Inl x
      | Inr text \<Rightarrow> json_loads h text)"

definition code_full_path :: "json \<Rightarrow> exn + path" where
  "code_full_path req =
     (case req of
        JObj kv \<Rightarrow>
          (case map_of kv ''code_full_path'' of
             Some (JStr p) \<Rightarrow> Inr p
           | _ \<Rightarrow> Inl (TypeError ''expected str, bytes or os.PathLike object''))
      | _ \<Rightarrow> Inl (AttributeError ''object has no attribute 'get' ''))"

definition approve_request ::
  "host \<Rightarrow> approve_env \<Rightarrow> path \<Rightarrow> path option \<Rightarrow> fs \<Rightarrow> (exn + approval) \<times> fs" where
  "approve_request h e req_file approved_dir st =
     (let dir = (case approved_dir of None \<Rightarrow> FILES_DIR h | Some d \<Rightarrow> d) in
      case load_request h st req_file of
        Inl x \<Rightarrow>
          (Inr \<lparr>approval_ok = False,
                approval_error = Some (''bad request file: '' @ str_exn x),
                approved_path = None\<rparr>, st)
      | Inr req \<Rightarrow>
          (case code_full_path req of
             Inl x \<Rightarrow> (Inl x, st)
           | Inr code_path \<Rightarrow>
               if \<not> path_exists h st code_path
               then (Inr \<lparr>approval_ok = False,
                          approval_error = Some ''code file missing'',
                          approved_path = None\<rparr>, st)
               else
                 let target = pjoin dir (path_name code_path) in
                 (case shutil_move (move_r e) h st code_path target of
                    (Inl x, st1) \<Rightarrow> (Inl x, st1)
                  | (Inr u, st1) \<Rightarrow>
                      let (uw, st2) = unlink (unlink_r e) False st1 req_file in
                      (Inr \<lparr>approval_ok = True, approval_error = None,
                            approved_path = Some target\<rparr>, st2))))"

section \<open>The idle scheduler\<close>

record config =
  enabled :: bool
  idle_seconds :: real
  loop_interval :: real
  task_mode :: string
  max_runs_per_cycle :: int
  generate_tasks :: bool

definition AUTORUN_CONFIG :: config where
  "AUTORUN_CONFIG =
     \<lparr>enabled = True, idle_seconds = 200, loop_interval = 20, task_mode = ''autotasks'',
      max_runs_per_cycle = 2, generate_tasks = True\<rparr>"

text \<open>The slice \<^verbatim>\<open>xs[:n]\<close>; a negative \<open>n\<close> counts from the end.\<close>

definition py_take :: "int \<Rightarrow> 'a list \<Rightarrow> 'a list" where
  "py_take n xs = (if 0 \<le> n then take (nat n) xs else take (length xs - nat (- n)) xs)"

text \<open>\<^verbatim>\<open>str\<close> of an integer.\<close>

function str_nat :: "nat \<Rightarrow> string" where
  "str_nat n =
     (if n < 10 then [char_of (48 + n)]
      else str_nat (n div 10) @ [char_of (48 + n mod 10)])"
  by pat_completeness auto
termination
  by (relation "measure id") auto

definition str_int :: "int \<Rightarrow> string" where
  "str_int i = (if i < 0 then CHR ''-'' # str_nat (nat (- i)) else str_nat (nat i))"

text \<open>
  What the scheduler does is recorded as a trace: \<open>Log m\<close> for a call of
  \<^verbatim>\<open>log(m)\<close> (the time stamp in front of the line and the copy appended to the log
  file, whose failure is dropped, are left out), \<open>Ran t\<close> for a call of the execution
  engine on the task file or the project \<open>t\<close>, \<open>Deleted f\<close> for a call of
  \<^verbatim>\<open>f.unlink\<close> that returned.
\<close>

datatype event = Log string | Ran string | Deleted path

text \<open>What one call of \<^verbatim>\<open>generate_autotask_file\<close> gets from outside: the template
  drawn, the time of day in the last template, the clock in milliseconds, and whether
  the file can be written.\<close>

record gen_env =
  choice :: nat
  clock_hms :: string
  clock_ms :: int
  gen_write_r :: "exn option"

definition task_templates :: "string \<Rightarrow> string list" where
  "task_templates hms =
     [''print('Hello from Gary!')'',
      ''x = sum(range(10)); print('Sum 0-9 =', x)'',
      ''for i in range(3): print('Task iteration', i)'',
      ''print('Gary idle task executed at '' @ hms @ [CHR 0x27, CHR '')'']]"

definition generate_autotask_file :: "host \<Rightarrow> gen_env \<Rightarrow> fs \<times> event list \<Rightarrow> fs \<times> event list" where
  "generate_autotask_file h g s =
     (let (st, tr) = s;
          code = task_templates (clock_hms g) ! (choice g mod 4);
          fname = pjoin (PENDING_DIR h) (''autotask_'' @ str_int (clock_ms g) @ ''.py'') in
      case write_text (gen_write_r g) st fname code of
        (Inl x, st1) \<Rightarrow> (st1, tr @ [Log (''Failed to write autotask: '' @ str_exn x)])
      | (Inr u, st1) \<Rightarrow> (st1, tr @ [Log (''Generated new autotask: '' @ path_name fname)]))"

text \<open>\<^verbatim>\<open>sorted(PENDING_DIR.glob("autotask_*.py"))\<close>.\<close>

definition glob_autotasks :: "fs \<Rightarrow> path \<Rightarrow> path list" where
  "glob_autotasks st d =
     map (pjoin d)
       (sort (filter (\<lambda>n. startswith n ''autotask_'' \<and> endswith n ''.py'' \<and> 12 \<le> length n)
                (iterdir st d)))"

text \<open>
  What one firing cycle gets from outside: the clock, the rendering of a duration with
  one decimal, whether the directory can be listed, the times of the files, and for
  each task or project the outcomes of its run and of its removal.
\<close>

record cycle_env =
  now :: real
  fmt_seconds :: "real \<Rightarrow> string"
  listing_r :: "exn option"
  stats :: stat_env
  run_of :: "string \<Rightarrow> run_env"
  unlink_of :: "path \<Rightarrow> exn option"
  gen_of :: "nat \<Rightarrow> gen_env"

text \<open>The loop over the selected projects: the body, which logs an exception of the
  run and counts a run that returned, and the loop with its \<^verbatim>\<open>break\<close>.\<close>

definition project_body ::
  "host \<Rightarrow> cycle_env \<Rightarrow> project \<Rightarrow> fs \<times> int \<times> event list \<Rightarrow> fs \<times> int \<times> event list" where
  "project_body h ce p s =
     (let (st, runs, tr) = s;
          name = proj_name p;
          tr1 = tr @ [Log (''Running project: '' @ name), Ran name] in
      case run_project_by_name h (run_of ce name) name 10 st of
        (Inl x, st1) \<Rightarrow>
          (st1, runs, tr1 @ [Log (''Error running project '' @ name @ '': '' @ str_exn x)])
      | (Inr r, st1) \<Rightarrow> (st1, runs + 1, tr1))"

fun project_loop ::
  "host \<Rightarrow> cycle_env \<Rightarrow> int \<Rightarrow> project list \<Rightarrow> fs \<times> int \<times> event list \<Rightarrow> fs \<times> int \<times> event list" where
  "project_loop h ce mx [] s = s"
| "project_loop h ce mx (p # ps) s =
     (let s1 = project_body h ce p s
      in if fst (snd s1) \<ge> mx then s1 else project_loop h ce mx ps s1)"

text \<open>The loop over the selected task files: read, run, remove, count; any exception of
  the three calls is logged and the rest of the body is skipped.\<close>

definition autotask_body ::
  "host \<Rightarrow> cycle_env \<Rightarrow> path \<Rightarrow> fs \<times> int \<times> event list \<Rightarrow> fs \<times> int \<times> event list" where
  "autotask_body h ce f s =
     (let (st, runs, tr) = s;
          tr1 = tr @ [Log (''Running autotask: '' @ path_name f)];
          failed = (\<lambda>x. Log (''Error running autotask '' @ path_name f @ '': '' @ str_exn x)) in
      case read_text (read_r (run_of ce f)) h st f of
        Inl x \<Rightarrow> (st, runs, tr1 @ [failed x])
      | Inr code \<Rightarrow>
          (case run_code_snippet h (run_of ce f) code 7 st of
             (Inl x, st1) \<Rightarrow> (st1, runs, tr1 @ [Ran f, failed x])
           | (Inr r, st1) \<Rightarrow>
               (case unlink (unlink_of ce f) True st1 f of
                  (Inl x, st2) \<Rightarrow> (st2, runs, tr1 @ [Ran f, failed x])
                | (Inr u, st2) \<Rightarrow> (st2, runs + 1, tr1 @ [Ran f, Deleted f]))))"

fun autotask_loop ::
  "host \<Rightarrow> cycle_env \<Rightarrow> int \<Rightarrow> path list \<Rightarrow> fs \<times> int \<times> event list \<Rightarrow> fs \<times> int \<times> event list" where
  "autotask_loop h ce mx [] s = s"
| "autotask_loop h ce mx (f # fs) s =
     (let s1 = autotask_body h ce f s
      in if fst (snd s1) \<ge> mx then s1 else autotask_loop h ce mx fs s1)"

definition project_mode ::
  "host \<Rightarrow> config \<Rightarrow> cycle_env \<Rightarrow> fs \<times> event list \<Rightarrow> exn + fs \<times> int \<times> event list" where
  "project_mode h cfg ce s =
     (let (st, tr) = s in
      case listing_r ce of
        Some x \<Rightarrow> Inl x
      | None \<Rightarrow>
          let projects = list_projects h (stats ce) st;
              tr1 = (if projects = [] \<and> generate_tasks cfg
                     then tr @ [Log ''No projects found to run.''] else tr)
          in Inr (project_loop h ce (max_runs_per_cycle cfg)
                    (py_take (max_runs_per_cycle cfg) projects) (st, 0, tr1)))"

definition autotask_mode ::
  "host \<Rightarrow> config \<Rightarrow> cycle_env \<Rightarrow> fs \<times> event list \<Rightarrow> exn + fs \<times> int \<times> event list" where
  "autotask_mode h cfg ce s =
     (let (st, tr) = s in
      case listing_r ce of
        Some x \<Rightarrow> Inl x
      | None \<Rightarrow>
          let pending_files = glob_autotasks st (PENDING_DIR h);
              (st1, tr1) =
                (if pending_files = [] \<and> generate_tasks cfg
                 then foldl (\<lambda>s i. generate_autotask_file h (gen_of ce i) s)
                        (st, tr @ [Log ''No pending autotasks found. Generating new tasks...''])
                        [0 ..< nat (max_runs_per_cycle cfg)]
                 else (st, tr));
              pending_files1 =
                (if pending_files = [] \<and> generate_tasks cfg
                 then glob_autotasks st1 (PENDING_DIR h) else pending_files)
          in Inr (autotask_loop h ce (max_runs_per_cycle cfg)
                    (py_take (max_runs_per_cycle cfg) pending_files1) (st1, 0, tr1)))"

text \<open>
  One pass of the body of the \<^verbatim>\<open>while\<close> loop of \<^verbatim>\<open>autorun_loop\<close>, from reading the
  configuration to the sleep; \<open>last_activity_ts\<close> is the entry of \<^verbatim>\<open>_state\<close> read then.
\<close>

definition autorun_cycle ::
  "host \<Rightarrow> config \<Rightarrow> cycle_env \<Rightarrow> real \<Rightarrow> fs \<times> event list \<Rightarrow> fs \<times> event list" where
  "autorun_cycle h cfg ce last_activity_ts s =
     (let (st, tr) = s in
      if \<not> enabled cfg then (st, tr @ [Log ''Autorun disabled. Sleeping...''])
      else
        let idle = now ce - last_activity_ts;
            tr1 = tr @ [Log (''Idle check: '' @ fmt_seconds ce idle @ ''s'')] in
        if idle < idle_seconds cfg
        then (st, tr1 @ [Log ''Not idle yet. Skipping this loop.''])
        else
          (case (if task_mode cfg = ''projects'' then project_mode h cfg ce (st, tr1)
                 else if task_mode cfg = ''autotasks'' then autotask_mode h cfg ce (st, tr1)
                 else Inr (st, 0, tr1)) of
             Inl x \<Rightarrow> (st, tr1 @ [Log (''Autorun loop exception: '' @ str_exn x)])
           | Inr (st1, runs, tr2) \<Rightarrow>
               (st1, tr2 @ [if runs > 0
                            then Log (''Cycle completed. Ran '' @ str_int runs @ '' task(s).'')
                            else Log ''No tasks were run this cycle.''])))"


text \<open>
  For stating what a cycle does: the runs of a list of projects one after the other,
  each on the files the previous one left, with the outcome of each; and the events of
  a trace that are calls of the engine.
\<close>

fun project_runs :: "host \<Rightarrow> cycle_env \<Rightarrow> string list \<Rightarrow> fs \<Rightarrow> (string \<times> (exn + result)) list" where
  "project_runs h ce [] st = []"
| "project_runs h ce (n # ns) st =
     (n, fst (run_project_by_name h (run_of ce n) n 10 st)) #
     project_runs h ce ns (snd (run_project_by_name h (run_of ce n) n 10 st))"

fun ran :: "event list \<Rightarrow> string list" where
  "ran [] = []"
| "ran (Ran t # tr) = t # ran tr"
| "ran (ev # tr) = ran tr"



section \<open>Example inputs\<close>

text \<open>A host, the outside of one run and the outside of one firing cycle, used to
  evaluate the functions above on concrete inputs.\<close>

text \<open>The text of a descriptor that has the one key \<^verbatim>\<open>code_full_path\<close>; the example
  host parses the empty object and two such descriptors, and nothing else.\<close>

definition demo_descriptor :: "path \<Rightarrow> string" where
  "demo_descriptor p =
     ''{'' @ [CHR 0x22] @ ''code_full_path'' @ [CHR 0x22] @ '': '' @ [CHR 0x22] @ p @
     [CHR 0x22] @ ''}''"

definition demo_loads :: "string \<Rightarrow> exn + json" where
  "demo_loads s =
     (if s = ''{}'' then Inr (JObj [])
      else if s = demo_descriptor ''/app/sandbox/pending/notes.txt''
      then Inr (JObj [(''code_full_path'', JStr ''/app/sandbox/pending/notes.txt'')])
      else if s = demo_descriptor ''/app/sandbox/pending/r_tool.py''
      then Inr (JObj [(''code_full_path'', JStr ''/app/sandbox/pending/r_tool.py'')])
      else Inl (ValueError ''Expecting value''))"

text \<open>The decoder of the example host takes every byte but \<open>0xFF\<close> as a character.\<close>

definition demo_decode :: "string \<Rightarrow> exn + string" where
  "demo_decode bytes =
     (if CHR 0xFF \<in> set bytes then Inl (ValueError ''invalid start byte'') else Inr bytes)"

definition demo_host :: host where
  "demo_host =
     \<lparr>BASE = ''/app'', sys_executable = ''python3'',
      os_environ = [''PATH'' \<mapsto> ''/bin'', ''API_KEY'' \<mapsto> ''s3cret''],
      json_dumps = (\<lambda>j. ''{}''),
      json_loads = demo_loads,
      text_decode = demo_decode,
      is_dir = (\<lambda>p. p \<in> set [''/app'', ''/app/sandbox'', ''/app/sandbox/files'',
                               ''/app/sandbox/files/..'', ''/app/sandbox/logs'',
                               ''/app/sandbox/pending'', ''/tmp''])\<rparr>"

definition demo_stat :: stat_env where
  "demo_stat = \<lparr>st_mtime = (\<lambda>p. 0), st_ctime_iso = (\<lambda>p. ''2024-01-01T12:00:00'')\<rparr>"

definition demo_run :: run_env where
  "demo_run =
     \<lparr>read_r = None, mkdtemp_r = Inr ''/tmp/gary_sandbox_1'', script_write_r = None,
      child = (\<lambda>a. Exited 1 [(Out, ''hi ''), (Err, ''ZeroDivisionError'')]),
      time_start = 1, time_end = 3,
      timestamp_name = ''20240101_120000'', uuid_hex = ''abcdef0123'',
      timestamp_field = ''20240101_120000'',
      log_write_r = None, rmtree_r = None\<rparr>"

definition demo_cycle :: cycle_env where
  "demo_cycle =
     \<lparr>now = 1000, fmt_seconds = (\<lambda>r. ''1000.0''), listing_r = None,
      stats = demo_stat,
      run_of = (\<lambda>t. demo_run), unlink_of = (\<lambda>p. None),
      gen_of = (\<lambda>i. \<lparr>choice = 0, clock_hms = ''12:00:00'', clock_ms = 5 + int i,
                       gen_write_r = None\<rparr>)\<rparr>"

text \<open>A store with two projects and one other file, and a cycle in which the log of the
  run of \<^verbatim>\<open>a.py\<close> cannot be written, so that \<^verbatim>\<open>run_project_by_name\<close> raises.\<close>

definition demo_store :: fs where
  "demo_store =
     [(''/app/sandbox/files/a.py'', ''print(1)''),
      (''/app/sandbox/files/b.txt'', ''notes''),
      (''/app/sandbox/files/c.py'', ''print(3)'')]"

definition demo_cycle_failing :: cycle_env where
  "demo_cycle_failing =
     demo_cycle\<lparr>run_of := (\<lambda>t. if t = ''a.py''
                              then demo_run\<lparr>log_write_r := Some (OSError ''disk full'')\<rparr>
                              else demo_run)\<rparr>"

text \<open>The same store with a third project.\<close>

definition demo_store_three :: fs where
  "demo_store_three = demo_store @ [(''/app/sandbox/files/d.py'', ''print(4)'')]"



section \<open>Facts about paths and the environment\<close>

lemma safe_env_apply:
  "safe_env env k =
     (if k = ''PYTHONUNBUFFERED'' then Some ''1''
      else if k \<in> set allow_list then env k else None)"
  by (simp add: safe_env_def allow_list_def split: option.splits)









section \<open>Facts about the execution engine\<close>

lemma captured_merged:
  "captured (sandbox_args h script timeout tmpdir) chunks = Some (concat (map snd chunks))"
proof -
  have "filter (\<lambda>(f, t). f = Out \<or> f = Err) chunks = chunks"
    by (rule filter_True) (auto intro: fd.exhaust)
  then show ?thesis by (simp add: captured_def sandbox_args_def)
qed

lemma launch_exited:
  assumes "child e (sandbox_args h script timeout tmpdir) = Exited rc chunks"
    and "text_decode h (concat (map snd chunks)) = Inr s"
  shows "launch h e script timeout tmpdir =
     Inr \<lparr>ok = True, output_text = Some (universal_newlines s), error = None,
          elapsed = Some (time_end e - time_start e)\<rparr>"
  using assms
  by (simp add: launch_def subprocess_run_def captured_merged decoded_def)
     (simp add: sandbox_args_def)


lemma launch_hung:
  assumes "child e (sandbox_args h script timeout tmpdir) = Hung chunks"
  shows "\<exists>partial. launch h e script timeout tmpdir = Inl (TimeoutExpired partial)"
  using assms by (simp add: launch_def subprocess_run_def)

lemma launch_failed:
  assumes "child e (sandbox_args h script timeout tmpdir) = Failed x"
  shows "launch h e script timeout tmpdir = Inl x"
  using assms by (simp add: launch_def subprocess_run_def)

lemma handler_fields:
  "ok (handler x) = False \<and> output_text (handler x) = Some [] \<and> elapsed (handler x) = None"
  by (cases x) (simp_all add: handler_def)

lemma handler_timeout: "error (handler (TimeoutExpired partial)) = Some ''timeout''"
  by (simp add: handler_def)

lemma run_code_snippet_fst:
  assumes "mkdtemp_r e = Inr tmpdir"
  shows "fst (run_code_snippet h e code timeout st) =
     Inr (case script_write_r e of
            Some x \<Rightarrow> handler x
          | None \<Rightarrow> (case launch h e (pjoin tmpdir ''script.py'') timeout tmpdir of
                       Inl x \<Rightarrow> handler x | Inr r \<Rightarrow> r))"
  using assms
  by (simp add: run_code_snippet_def write_text_def rmtree_def Let_def
           split: option.splits prod.splits sum.splits)

lemma read_text_Inr:
  "read_text r h st p = Inr c \<Longrightarrow> path_exists h st p \<and> map_of st p = Some c \<and> r = None"
  by (auto simp: read_text_def path_exists_def split: option.splits if_splits)

lemma run_project_by_name_fst:
  assumes "read_text (read_r e) h st (pjoin (FILES_DIR h) (basename name)) = Inr code"
    and "mkdtemp_r e = Inr tmpdir"
    and "script_write_r e = None"
  shows "fst (run_project_by_name h e name timeout st) =
     (case log_write_r e of
        Some x \<Rightarrow> Inl x
      | None \<Rightarrow>
          Inr (case launch h e (pjoin tmpdir (basename name)) timeout tmpdir of
                 Inl x \<Rightarrow> handler x | Inr r \<Rightarrow> r))"
  using assms read_text_Inr[OF assms(1)]
  by (auto simp: run_project_by_name_def write_text_def
        rmtree_def Let_def split: option.splits prod.splits sum.splits)

lemma runs_ignore_host_environment:
  assumes "safe_env env1 = safe_env env2"
  shows "run_code_snippet (h\<lparr>os_environ := env1\<rparr>) e code timeout st =
           run_code_snippet (h\<lparr>os_environ := env2\<rparr>) e code timeout st"
    and "run_project_by_name (h\<lparr>os_environ := env1\<rparr>) e name timeout st =
           run_project_by_name (h\<lparr>os_environ := env2\<rparr>) e name timeout st"
proof -
  have L: "launch (h\<lparr>os_environ := env1\<rparr>) = launch (h\<lparr>os_environ := env2\<rparr>)"
  proof -
    have d: "decoded (h\<lparr>os_environ := env\<rparr>) = decoded h" for env
      by (intro ext) (simp add: decoded_def)
    have "subprocess_run (h\<lparr>os_environ := env\<rparr>) = subprocess_run h" for env
      unfolding subprocess_run_def d ..
    with assms show ?thesis
      by (intro ext) (simp add: launch_def sandbox_args_def)
  qed
  have P: "path_exists (h\<lparr>os_environ := env1\<rparr>) = path_exists (h\<lparr>os_environ := env2\<rparr>)"
    "read_text r (h\<lparr>os_environ := env1\<rparr>) = read_text r (h\<lparr>os_environ := env2\<rparr>)" for r
    by (intro ext, simp add: path_exists_def read_text_def)+
  have D: "LOGS_DIR (h\<lparr>os_environ := env1\<rparr>) = LOGS_DIR (h\<lparr>os_environ := env2\<rparr>)"
    "FILES_DIR (h\<lparr>os_environ := env1\<rparr>) = FILES_DIR (h\<lparr>os_environ := env2\<rparr>)"
    by (simp_all add: LOGS_DIR_def FILES_DIR_def SANDBOX_ROOT_def)
  have J: "json_dumps (h\<lparr>os_environ := env1\<rparr>) = json_dumps (h\<lparr>os_environ := env2\<rparr>)"
    by simp
  show "run_code_snippet (h\<lparr>os_environ := env1\<rparr>) e code timeout st =
           run_code_snippet (h\<lparr>os_environ := env2\<rparr>) e code timeout st"
    unfolding run_code_snippet_def L D J ..
  show "run_project_by_name (h\<lparr>os_environ := env1\<rparr>) e name timeout st =
           run_project_by_name (h\<lparr>os_environ := env2\<rparr>) e name timeout st"
    unfolding run_project_by_name_def L D J P ..
qed
















section \<open>Facts about the approval workflow\<close>

lemma split_slash_no_slash: "w \<in> set (split_slash p) \<Longrightarrow> CHR ''/'' \<notin> set w"
  by (induction p arbitrary: w) (auto split: if_splits list.splits)

lemma path_name_no_slash: "CHR ''/'' \<notin> set (path_name p)"
proof (cases "filter (\<lambda>w. w \<noteq> [] \<and> w \<noteq> ''.'') (split_slash p)")
  case Nil
  then show ?thesis by (simp add: path_name_def)
next
  case (Cons w ws)
  then have "path_name p \<in> set (filter (\<lambda>w. w \<noteq> [] \<and> w \<noteq> ''.'') (split_slash p))"
    unfolding path_name_def by (simp del: filter.simps set_filter)
  then have "path_name p \<in> set (split_slash p)" by simp
  then show ?thesis by (rule split_slash_no_slash)
qed

lemma path_suffix_nonempty: "path_suffix n = ''.py'' \<Longrightarrow> n \<noteq> [] \<and> n \<noteq> ''.''"
  by (auto simp: path_suffix_def Let_def)

lemma iterdir_member:
  assumes "map_of st (d @ ''/'' @ n) = Some c" and "CHR ''/'' \<notin> set n" and "n \<noteq> []"
  shows "n \<in> set (iterdir st d)"
proof -
  let ?p = "d @ ''/'' @ n"
  let ?ok = "\<lambda>p. under d p \<and> CHR ''/'' \<notin> set (drop (length d + 1) p)
                    \<and> drop (length d + 1) p \<noteq> []"
  from assms(1) have "?p \<in> set (map fst st)"
    by (metis map_of_SomeD fst_conv image_eqI set_map)
  moreover have "?ok ?p" using assms(2,3) by (simp add: under_def)
  ultimately have "?p \<in> set (filter ?ok (map fst st))" by simp
  then have "drop (length d + 1) ?p \<in> set (iterdir st d)"
    unfolding iterdir_def set_map by (rule imageI)
  then show ?thesis by simp
qed

lemma list_projects_names:
  "proj_name ` set (list_projects h se st) =
     {n \<in> set (iterdir st (FILES_DIR h)). path_suffix n = ''.py''}"
  by (auto simp: list_projects_def image_iff)

lemma load_request_missing:
  "map_of st req_file = None \<Longrightarrow> \<exists>m. load_request h st req_file = Inl (OSError m)"
  by (auto simp: load_request_def read_text_def)

lemma approve_request_bad_file:
  assumes "load_request h st req_file = Inl x"
  shows "approve_request h e req_file dir st =
     (Inr \<lparr>approval_ok = False, approval_error = Some (''bad request file: '' @ str_exn x),
           approved_path = None\<rparr>, st)"
  using assms by (simp add: approve_request_def)

lemma approve_request_code_missing:
  assumes "load_request h st req_file = Inr req" and "code_full_path req = Inr code_path"
    and "map_of st code_path = None" and "\<not> is_dir h code_path"
  shows "approve_request h e req_file dir st =
     (Inr \<lparr>approval_ok = False, approval_error = Some ''code file missing'',
           approved_path = None\<rparr>, st)"
  using assms by (simp add: approve_request_def path_exists_def)

lemma approve_request_shape_error:
  assumes "load_request h st req_file = Inr req" and "code_full_path req = Inl x"
  shows "approve_request h e req_file dir st = (Inl x, st)"
  using assms by (simp add: approve_request_def)

lemma approve_request_moves:
  assumes "load_request h st req_file = Inr req" and "code_full_path req = Inr code_path"
    and "map_of st code_path = Some code" and "move_r e = None" and "unlink_r e = None"
  shows "approve_request h e req_file None st =
     (Inr \<lparr>approval_ok = True, approval_error = None,
           approved_path = Some (pjoin (FILES_DIR h) (path_name code_path))\<rparr>,
      snd (unlink None False
             (if code_path = pjoin (FILES_DIR h) (path_name code_path) then st
              else AList.update (pjoin (FILES_DIR h) (path_name code_path)) code
                     (AList.delete code_path st))
             req_file))"
  using assms
  by (simp add: approve_request_def path_exists_def shutil_move_def Let_def split: prod.splits)

lemma map_of_unlink:
  "map_of (snd (unlink None b st p)) q = (if q = p then None else map_of st q)"
  by (auto simp: unlink_def delete_conv')

section \<open>Facts about the scheduler\<close>

lemma ran_append: "ran (xs @ ys) = ran xs @ ran ys"
  by (induction xs rule: ran.induct) simp_all

lemma py_take_length: "0 \<le> n \<Longrightarrow> int (length (py_take n xs)) \<le> n"
  by (simp add: py_take_def)

lemma project_body_eq:
  "project_body h ce p (st, runs, tr) =
     (snd (run_project_by_name h (run_of ce (proj_name p)) (proj_name p) 10 st),
      (if isl (fst (run_project_by_name h (run_of ce (proj_name p)) (proj_name p) 10 st))
       then runs else runs + 1),
      tr @ [Log (''Running project: '' @ proj_name p), Ran (proj_name p)] @
        (case fst (run_project_by_name h (run_of ce (proj_name p)) (proj_name p) 10 st) of
           Inl x \<Rightarrow> [Log (''Error running project '' @ proj_name p @ '': '' @ str_exn x)]
         | Inr r \<Rightarrow> []))"
  by (simp add: project_body_def Let_def split: prod.splits sum.splits)

lemma project_runs_length: "length (project_runs h ce ns st) = length ns"
  by (induction ns arbitrary: st) simp_all

lemma returned_and_raised:
  "length (filter (\<lambda>(n, out). \<not> isl out) rs) + length (filter (\<lambda>(n, out). isl out) rs) =
     length rs"
  by (induction rs) auto

lemma project_loop_no_break:
  "runs + int (length ps) \<le> mx \<Longrightarrow>
   project_loop h ce mx ps (st, runs, tr) =
     foldl (\<lambda>s p. project_body h ce p s) (st, runs, tr) ps"
proof (induction ps arbitrary: st runs tr)
  case Nil
  then show ?case by simp
next
  case (Cons p ps)
  obtain st1 runs1 tr1 where b: "project_body h ce p (st, runs, tr) = (st1, runs1, tr1)"
    by (cases "project_body h ce p (st, runs, tr)") auto
  then have r: "runs1 \<le> runs + 1"
    by (auto simp: project_body_eq split: if_splits)
  show ?case
  proof (cases "mx \<le> runs1")
    case True
    with r Cons.prems have "length ps = 0" by (simp del: length_0_conv)
    then have "ps = []" by simp
    with b True show ?thesis by simp
  next
    case False
    from r Cons.prems have "runs1 + int (length ps) \<le> mx" by simp
    from Cons.IH[OF this] b False show ?thesis by simp
  qed
qed

lemma foldl_project_body:
  assumes "foldl (\<lambda>s p. project_body h ce p s) (st, runs, tr) ps = (st', runs', tr')"
  shows "ran tr' = ran tr @ map proj_name ps
     \<and> runs' = runs + int (length (filter (\<lambda>(n, out). \<not> isl out)
                        (project_runs h ce (map proj_name ps) st)))
     \<and> set tr \<subseteq> set tr'
     \<and> (\<forall>(n, out) \<in> set (project_runs h ce (map proj_name ps) st). \<forall>x. out = Inl x \<longrightarrow>
           Log (''Error running project '' @ n @ '': '' @ str_exn x) \<in> set tr')"
  using assms
proof (induction ps arbitrary: st runs tr)
  case Nil
  then show ?case by simp
next
  case (Cons p ps)
  let ?R = "run_project_by_name h (run_of ce (proj_name p)) (proj_name p) 10 st"
  obtain st1 runs1 tr1 where b: "project_body h ce p (st, runs, tr) = (st1, runs1, tr1)"
    by (cases "project_body h ce p (st, runs, tr)") auto
  with Cons.prems have f: "foldl (\<lambda>s p. project_body h ce p s) (st1, runs1, tr1) ps = (st', runs', tr')"
    by simp
  note ih = Cons.IH[OF f]
  from b have s1: "st1 = snd ?R"
    and r1: "runs1 = (if isl (fst ?R) then runs else runs + 1)"
    and t1: "tr1 = tr @ [Log (''Running project: '' @ proj_name p), Ran (proj_name p)] @
        (case fst ?R of
           Inl x \<Rightarrow> [Log (''Error running project '' @ proj_name p @ '': '' @ str_exn x)]
         | Inr r \<Rightarrow> [])"
    by (simp_all add: project_body_eq)
  have rt: "ran tr1 = ran tr @ [proj_name p]"
    by (simp add: t1 ran_append split: sum.splits)
  have sub: "set tr \<subseteq> set tr1" by (auto simp: t1)
  have err: "Log (''Error running project '' @ proj_name p @ '': '' @ str_exn x) \<in> set tr1"
    if "fst ?R = Inl x" for x
    using that by (simp add: t1)
  from ih rt have 1: "ran tr' = ran tr @ map proj_name (p # ps)" by simp
  from ih r1 s1 have 2: "runs' = runs + int (length (filter (\<lambda>(n, out). \<not> isl out)
                        (project_runs h ce (map proj_name (p # ps)) st)))"
    by simp
  from ih sub have 3: "set tr \<subseteq> set tr'" by blast
  have 4: "\<forall>(n, out) \<in> set (project_runs h ce (map proj_name (p # ps)) st). \<forall>x. out = Inl x \<longrightarrow>
           Log (''Error running project '' @ n @ '': '' @ str_exn x) \<in> set tr'"
    using ih err s1 by auto
  from 1 2 3 4 show ?case by blast
qed

lemma demo_dirs:
  "FILES_DIR demo_host = ''/app/sandbox/files''" "LOGS_DIR demo_host = ''/app/sandbox/logs''"
  "PENDING_DIR demo_host = ''/app/sandbox/pending''"
  by (simp_all add: FILES_DIR_def LOGS_DIR_def PENDING_DIR_def SANDBOX_ROOT_def pjoin_def
        demo_host_def)

















lemma demo_failing_run:
  assumes "map_of st ''/app/sandbox/files/a.py'' = Some code"
  shows "run_project_by_name demo_host (run_of demo_cycle_failing ''a.py'') ''a.py'' 10 st =
           (Inl (OSError ''disk full''), AList.update ''/tmp/gary_sandbox_1/a.py'' code st)"
  using assms
  by (simp add: run_project_by_name_def demo_dirs demo_cycle_failing_def demo_cycle_def
        demo_run_def basename_def pjoin_def path_exists_def read_text_def
        write_text_def Let_def log_name_def)

lemma demo_returning_run:
  assumes "map_of st ''/app/sandbox/files/c.py'' = Some code"
  shows "fst (run_project_by_name demo_host (run_of demo_cycle_failing ''c.py'') ''c.py'' 10 st) =
           Inr \<lparr>ok = True, output_text = Some ''hi ZeroDivisionError'', error = None,
                elapsed = Some 2\<rparr>"
proof -
  let ?e = "run_of demo_cycle_failing ''c.py''"
  have e: "?e = demo_run" by (simp add: demo_cycle_failing_def demo_cycle_def)
  have r: "read_text (read_r ?e) demo_host st (pjoin (FILES_DIR demo_host) (basename ''c.py'')) =
             Inr code"
    using assms by (simp add: e demo_dirs demo_run_def basename_def pjoin_def read_text_def)
  have l: "launch demo_host ?e (pjoin ''/tmp/gary_sandbox_1'' (basename ''c.py'')) 10
             ''/tmp/gary_sandbox_1'' =
           Inr \<lparr>ok = True, output_text = Some (universal_newlines ''hi ZeroDivisionError''),
                error = None, elapsed = Some (time_end ?e - time_start ?e)\<rparr>"
    by (rule launch_exited[where rc = 1 and chunks = "[(Out, ''hi ''), (Err, ''ZeroDivisionError'')]"])
       (simp_all add: e demo_run_def demo_host_def demo_decode_def)
  have m: "mkdtemp_r ?e = Inr ''/tmp/gary_sandbox_1''" "script_write_r ?e = None"
    "log_write_r ?e = None" "time_end ?e - time_start ?e = 2"
    by (simp_all add: e demo_run_def)
  show ?thesis
    by (simp add: run_project_by_name_fst[OF r m(1) m(2)] l m(3) m(4))
qed












section \<open>The claims\<close>




text \<open>
  C2. When the child is still running at the deadline, \<^verbatim>\<open>run_code_snippet\<close> returns a
  result with \<^verbatim>\<open>ok\<close> false, the error \<^verbatim>\<open>"timeout"\<close> and no \<^verbatim>\<open>elapsed\<close> key.
  Every result that \<^verbatim>\<open>run_project_by_name\<close> returns in that case is of the same
  form, and it returns one whenever its log record can be written. The child of a
  project is started only after the project file was read, the temporary directory made
  and the copy of the script written, which are the hypotheses of the second part.
\<close>

theorem timeout_result_has_no_elapsed:
  "(mkdtemp_r e = Inr tmpdir \<and> script_write_r e = None \<and>
      child e (sandbox_args h (pjoin tmpdir ''script.py'') timeout tmpdir) = Hung chunks
    \<longrightarrow> (\<exists>r. fst (run_code_snippet h e code timeout st) = Inr r \<and>
              ok r = False \<and> error r = Some ''timeout'' \<and> elapsed r = None))
   \<and>
   (read_text (read_r e) h st (pjoin (FILES_DIR h) (basename name)) = Inr src \<and>
      mkdtemp_r e = Inr tmpdir \<and> script_write_r e = None \<and>
      child e (sandbox_args h (pjoin tmpdir (basename name)) timeout tmpdir) = Hung chunks
    \<longrightarrow> (\<forall>r. fst (run_project_by_name h e name timeout st) = Inr r \<longrightarrow>
              ok r = False \<and> error r = Some ''timeout'' \<and> elapsed r = None)
        \<and> (log_write_r e = None \<longrightarrow>
              (\<exists>r. fst (run_project_by_name h e name timeout st) = Inr r)))"
proof (intro conjI impI)
  assume a: "mkdtemp_r e = Inr tmpdir \<and> script_write_r e = None \<and>
      child e (sandbox_args h (pjoin tmpdir ''script.py'') timeout tmpdir) = Hung chunks"
  then obtain partial where
    "launch h e (pjoin tmpdir ''script.py'') timeout tmpdir = Inl (TimeoutExpired partial)"
    using launch_hung by blast
  with a show "\<exists>r. fst (run_code_snippet h e code timeout st) = Inr r \<and>
              ok r = False \<and> error r = Some ''timeout'' \<and> elapsed r = None"
    by (simp add: run_code_snippet_fst handler_fields handler_timeout)
next
  assume a: "read_text (read_r e) h st (pjoin (FILES_DIR h) (basename name)) = Inr src \<and>
      mkdtemp_r e = Inr tmpdir \<and> script_write_r e = None \<and>
      child e (sandbox_args h (pjoin tmpdir (basename name)) timeout tmpdir) = Hung chunks"
  then obtain partial where l:
    "launch h e (pjoin tmpdir (basename name)) timeout tmpdir = Inl (TimeoutExpired partial)"
    using launch_hung by blast
  from a have f: "fst (run_project_by_name h e name timeout st) =
      (case log_write_r e of Some x \<Rightarrow> Inl x
       | None \<Rightarrow> Inr (handler (TimeoutExpired partial)))"
    by (simp add: run_project_by_name_fst l split: option.splits)
  show "\<forall>r. fst (run_project_by_name h e name timeout st) = Inr r \<longrightarrow>
              ok r = False \<and> error r = Some ''timeout'' \<and> elapsed r = None"
    by (auto simp: f handler_fields handler_timeout split: option.splits)
  show "\<exists>r. fst (run_project_by_name h e name timeout st) = Inr r" if "log_write_r e = None"
    using that by (simp add: f)
qed

theorem timeout_result_has_no_elapsed_witness:
  "fst (run_code_snippet demo_host (demo_run\<lparr>child := \<lambda>a. Hung [(Out, ''partial'')]\<rparr>)
          ''while True: pass'' 7 []) =
     Inr \<lparr>ok = False, output_text = Some [], error = Some ''timeout'', elapsed = None\<rparr>
   \<and> fst (run_project_by_name demo_host (demo_run\<lparr>child := \<lambda>a. Hung [(Out, ''partial'')]\<rparr>)
          ''loop.py'' 10 [(''/app/sandbox/files/loop.py'', ''while True: pass'')]) =
     Inr \<lparr>ok = False, output_text = Some [], error = Some ''timeout'', elapsed = None\<rparr>"
proof -
  let ?e = "demo_run\<lparr>child := \<lambda>a. Hung [(Out, ''partial'')]\<rparr>"
  let ?st = "[(''/app/sandbox/files/loop.py'', ''while True: pass'')]"
  have p: "read_text (read_r ?e) demo_host ?st (pjoin (FILES_DIR demo_host) (basename ''loop.py'')) =
             Inr ''while True: pass''"
    by (simp add: read_text_def FILES_DIR_def SANDBOX_ROOT_def pjoin_def basename_def
          demo_host_def demo_run_def)
  note t = timeout_result_has_no_elapsed[where e = ?e and tmpdir = "''/tmp/gary_sandbox_1''"
      and h = demo_host and timeout = 7 and chunks = "[(Out, ''partial'')]"
      and code = "''while True: pass''" and st = "[]"]
  note u = timeout_result_has_no_elapsed[where e = ?e and tmpdir = "''/tmp/gary_sandbox_1''"
      and h = demo_host and timeout = 10 and chunks = "[(Out, ''partial'')]"
      and name = "''loop.py''" and st = ?st and src = "''while True: pass''"]
  have 1: "\<exists>r. fst (run_code_snippet demo_host ?e ''while True: pass'' 7 []) = Inr r \<and>
              ok r = False \<and> error r = Some ''timeout'' \<and> elapsed r = None"
    using t by (simp add: demo_run_def)
  have 2: "\<exists>r. fst (run_project_by_name demo_host ?e ''loop.py'' 10 ?st) = Inr r \<and>
              ok r = False \<and> error r = Some ''timeout'' \<and> elapsed r = None"
    using u p by (simp add: demo_run_def) blast
  have 3: "output_text r = Some []"
    if "fst (run_code_snippet demo_host ?e ''while True: pass'' 7 []) = Inr r" for r
    using that
    by (auto simp: run_code_snippet_fst[where tmpdir = "''/tmp/gary_sandbox_1''"] demo_run_def
          launch_def subprocess_run_def handler_def)
  have 4: "output_text r = Some []"
    if "fst (run_project_by_name demo_host ?e ''loop.py'' 10 ?st) = Inr r" for r
    using that p
    by (auto simp: run_project_by_name_fst[where tmpdir = "''/tmp/gary_sandbox_1''"] demo_run_def
          launch_def subprocess_run_def handler_def)
  from 1 3 have "fst (run_code_snippet demo_host ?e ''while True: pass'' 7 []) =
     Inr \<lparr>ok = False, output_text = Some [], error = Some ''timeout'', elapsed = None\<rparr>"
    by auto
  moreover from 2 4 have "fst (run_project_by_name demo_host ?e ''loop.py'' 10 ?st) =
     Inr \<lparr>ok = False, output_text = Some [], error = Some ''timeout'', elapsed = None\<rparr>"
    by auto
  ultimately show ?thesis by simp
qed






text \<open>
  C4. As stated the claim fails: the listing of the store reports only the files with
  the suffix \<^verbatim>\<open>.py\<close>. A descriptor whose code file is \<^verbatim>\<open>notes.txt\<close> is approved,
  the file is moved into the store, and the listing of the store is empty.
\<close>

theorem approved_file_not_listed:
  "approve_request demo_host \<lparr>move_r = None, unlink_r = None\<rparr>
     ''/app/sandbox/pending/notes.txt.request.json'' None
     [(''/app/sandbox/pending/notes.txt'', ''remember the milk''),
      (''/app/sandbox/pending/notes.txt.request.json'',
       demo_descriptor ''/app/sandbox/pending/notes.txt'')] =
     (Inr \<lparr>approval_ok = True, approval_error = None,
           approved_path = Some ''/app/sandbox/files/notes.txt''\<rparr>,
      [(''/app/sandbox/files/notes.txt'', ''remember the milk'')])
   \<and> list_projects demo_host demo_stat
        [(''/app/sandbox/files/notes.txt'', ''remember the milk'')] = []"
  by code_simp

text \<open>
  C4, amended. For every descriptor that parses to an object whose
  \<^verbatim>\<open>code_full_path\<close> is the path of an existing file, when the move and the removal
  of the descriptor succeed and the descriptor is not itself the target of the move,
  \<^verbatim>\<open>approve_request\<close> returns success with the path of the store followed by the name
  of the code file; the code is then at that path and no longer at its old one, the
  descriptor is gone, and the name is in the listing of the store when it has the suffix
  \<^verbatim>\<open>.py\<close>. Any later approval of the same descriptor returns the error
  \<^verbatim>\<open>bad request file\<close> and changes nothing.
\<close>

theorem approve_moves_code_into_store:
  assumes "load_request h st req_file = Inr req"
    and "code_full_path req = Inr code_path"
    and "map_of st code_path = Some code"
    and "move_r e = None" and "unlink_r e = None"
    and "pjoin (FILES_DIR h) (path_name code_path) \<noteq> req_file"
  shows "fst (approve_request h e req_file None st) =
           Inr \<lparr>approval_ok = True, approval_error = None,
                approved_path = Some (pjoin (FILES_DIR h) (path_name code_path))\<rparr>
     \<and> map_of (snd (approve_request h e req_file None st))
           (pjoin (FILES_DIR h) (path_name code_path)) = Some code
     \<and> (code_path \<noteq> pjoin (FILES_DIR h) (path_name code_path) \<longrightarrow>
           map_of (snd (approve_request h e req_file None st)) code_path = None)
     \<and> map_of (snd (approve_request h e req_file None st)) req_file = None
     \<and> (path_suffix (path_name code_path) = ''.py'' \<longrightarrow>
           path_name code_path \<in>
             proj_name ` set (list_projects h se (snd (approve_request h e req_file None st))))
     \<and> (\<exists>m. approve_request h e2 req_file dir2 (snd (approve_request h e req_file None st)) =
           (Inr \<lparr>approval_ok = False, approval_error = Some (''bad request file: '' @ m),
                 approved_path = None\<rparr>,
            snd (approve_request h e req_file None st)))"
proof -
  let ?target = "pjoin (FILES_DIR h) (path_name code_path)"
  let ?st1 = "if code_path = ?target then st
              else AList.update ?target code (AList.delete code_path st)"
  let ?st2 = "snd (approve_request h e req_file None st)"
  note a = approve_request_moves[OF assms(1-5)]
  have s: "?st2 = snd (unlink None False ?st1 req_file)" by (simp add: a)
  have 1: "fst (approve_request h e req_file None st) =
           Inr \<lparr>approval_ok = True, approval_error = None, approved_path = Some ?target\<rparr>"
    by (simp add: a)
  have t1: "map_of ?st1 ?target = Some code"
    using assms(3) by (simp add: update_conv')
  have 2: "map_of ?st2 ?target = Some code"
    unfolding s map_of_unlink using assms(6) t1 by simp
  have 3: "map_of ?st2 code_path = None" if "code_path \<noteq> ?target"
    unfolding s map_of_unlink using that by (simp add: update_conv' delete_conv')
  have 4: "map_of ?st2 req_file = None"
    unfolding s map_of_unlink by simp
  have 5: "path_name code_path \<in> proj_name ` set (list_projects h se ?st2)"
    if p: "path_suffix (path_name code_path) = ''.py''"
  proof -
    from p have n: "path_name code_path \<noteq> []" "path_name code_path \<noteq> ''.''"
      using path_suffix_nonempty by blast+
    then have "?target = FILES_DIR h @ ''/'' @ path_name code_path"
      by (simp add: pjoin_def)
    with 2 have "map_of ?st2 (FILES_DIR h @ ''/'' @ path_name code_path) = Some code"
      by simp
    then have "path_name code_path \<in> set (iterdir ?st2 (FILES_DIR h))"
      using path_name_no_slash n(1) by (rule iterdir_member)
    with p show ?thesis by (simp add: list_projects_names)
  qed
  from load_request_missing[OF 4, of h] obtain m where
    "load_request h ?st2 req_file = Inl (OSError m)" by blast
  then have 6: "\<exists>m. approve_request h e2 req_file dir2 ?st2 =
           (Inr \<lparr>approval_ok = False, approval_error = Some (''bad request file: '' @ m),
                 approved_path = None\<rparr>, ?st2)"
    by (simp add: approve_request_bad_file)
  from 1 2 3 4 5 6 show ?thesis by blast
qed

theorem approve_moves_code_into_store_witness:
  "fst (approve_request demo_host \<lparr>move_r = None, unlink_r = None\<rparr>
          ''/app/sandbox/pending/r_tool.py.request.json'' None
          [(''/app/sandbox/pending/r_tool.py'', ''print(1)''),
           (''/app/sandbox/pending/r_tool.py.request.json'',
            demo_descriptor ''/app/sandbox/pending/r_tool.py'')]) =
     Inr \<lparr>approval_ok = True, approval_error = None,
          approved_path = Some ''/app/sandbox/files/r_tool.py''\<rparr>
   \<and> ''r_tool.py'' \<in> proj_name ` set (list_projects demo_host demo_stat
        (snd (approve_request demo_host \<lparr>move_r = None, unlink_r = None\<rparr>
          ''/app/sandbox/pending/r_tool.py.request.json'' None
          [(''/app/sandbox/pending/r_tool.py'', ''print(1)''),
           (''/app/sandbox/pending/r_tool.py.request.json'',
            demo_descriptor ''/app/sandbox/pending/r_tool.py'')])))"
proof -
  let ?req = "''/app/sandbox/pending/r_tool.py.request.json''"
  let ?code = "''/app/sandbox/pending/r_tool.py''"
  let ?st = "[(?code, ''print(1)''), (?req, demo_descriptor ?code)]"
  let ?e = "\<lparr>move_r = None, unlink_r = None\<rparr>"
  have 1: "load_request demo_host ?st ?req = Inr (JObj [(''code_full_path'', JStr ?code)])"
    by code_simp
  have 2: "code_full_path (JObj [(''code_full_path'', JStr ?code)]) = Inr ?code"
    by code_simp
  have 3: "map_of ?st ?code = Some ''print(1)''" by simp
  have 4: "move_r ?e = None" "unlink_r ?e = None" by simp_all
  have 5: "path_name ?code = ''r_tool.py''" by code_simp
  have 6: "pjoin (FILES_DIR demo_host) ''r_tool.py'' = ''/app/sandbox/files/r_tool.py''"
    by code_simp
  have 7: "path_suffix ''r_tool.py'' = ''.py''" by code_simp
  have 8: "pjoin (FILES_DIR demo_host) (path_name ?code) \<noteq> ?req"
    unfolding 5 6 by simp
  note t = approve_moves_code_into_store[OF 1 2 3 4 8, where se = demo_stat, unfolded 5 6]
  from t 7 show ?thesis by blast
qed


text \<open>
  C5. The claim holds for a descriptor that cannot be read or parsed and for one whose
  code file is missing, but not for every malformed descriptor: one that parses to JSON
  without a string \<^verbatim>\<open>code_full_path\<close> makes \<^verbatim>\<open>approve_request\<close> raise, since
  \<^verbatim>\<open>Path(req.get("code_full_path"))\<close> is outside the \<^verbatim>\<open>try\<close>. Here the descriptor
  is the empty object; the descriptor is left as it was.
\<close>

theorem approve_malformed_descriptor_raises:
  "approve_request demo_host \<lparr>move_r = None, unlink_r = None\<rparr>
     ''/app/sandbox/pending/x.py.request.json'' None
     [(''/app/sandbox/pending/x.py.request.json'', ''{}'')] =
     (Inl (TypeError ''expected str, bytes or os.PathLike object''),
      [(''/app/sandbox/pending/x.py.request.json'', ''{}'')])"
  by code_simp





text \<open>
  C7. As stated the claim fails in its last part: the loop runs over the slice
  \<^verbatim>\<open>projects[:max_runs_per_cycle]\<close>, so a project whose run raised has used one of
  the places of the limit. With the limit 2 and the three projects \<^verbatim>\<open>a.py\<close>,
  \<^verbatim>\<open>c.py\<close> and \<^verbatim>\<open>d.py\<close>, of which the first raises, the cycle runs the first two,
  logs the failure, counts one run, and does not run \<^verbatim>\<open>d.py\<close>.
\<close>

theorem failed_project_uses_a_place:
  "map proj_name (list_projects demo_host (stats demo_cycle_failing) demo_store_three) =
     [''a.py'', ''c.py'', ''d.py'']
   \<and> max_runs_per_cycle (AUTORUN_CONFIG\<lparr>task_mode := ''projects''\<rparr>) = 2
   \<and> (\<exists>st' tr'.
        project_mode demo_host (AUTORUN_CONFIG\<lparr>task_mode := ''projects''\<rparr>) demo_cycle_failing
          (demo_store_three, []) = Inr (st', 1, tr')
      \<and> ran tr' = [''a.py'', ''c.py'']
      \<and> Log ''Error running project a.py: disk full'' \<in> set tr')"
proof -
  let ?cfg = "AUTORUN_CONFIG\<lparr>task_mode := ''projects''\<rparr>"
  let ?a = "\<lparr>proj_name = ''a.py'', proj_size = 8, proj_created = ''2024-01-01T12:00:00''\<rparr>"
  let ?c = "\<lparr>proj_name = ''c.py'', proj_size = 8, proj_created = ''2024-01-01T12:00:00''\<rparr>"
  let ?d = "\<lparr>proj_name = ''d.py'', proj_size = 8, proj_created = ''2024-01-01T12:00:00''\<rparr>"
  let ?st_a = "AList.update ''/tmp/gary_sandbox_1/a.py'' ''print(1)'' demo_store_three"
  have l: "list_projects demo_host (stats demo_cycle_failing) demo_store_three = [?a, ?c, ?d]"
    by code_simp
  have m: "max_runs_per_cycle ?cfg = 2" "listing_r demo_cycle_failing = None"
    by (simp_all add: AUTORUN_CONFIG_def demo_cycle_failing_def demo_cycle_def)
  have a: "run_project_by_name demo_host (run_of demo_cycle_failing ''a.py'') ''a.py'' 10
             demo_store_three = (Inl (OSError ''disk full''), ?st_a)"
    by (rule demo_failing_run) (simp add: demo_store_three_def demo_store_def)
  have c: "fst (run_project_by_name demo_host (run_of demo_cycle_failing ''c.py'') ''c.py'' 10
             ?st_a) =
           Inr \<lparr>ok = True, output_text = Some ''hi ZeroDivisionError'', error = None,
                elapsed = Some 2\<rparr>"
    by (rule demo_returning_run[where code = "''print(3)''"])
       (simp add: demo_store_three_def demo_store_def)
  have "project_mode demo_host ?cfg demo_cycle_failing (demo_store_three, []) =
      Inr (snd (run_project_by_name demo_host (run_of demo_cycle_failing ''c.py'') ''c.py'' 10
                  ?st_a), 1,
           [Log ''Running project: a.py'', Ran ''a.py'',
            Log ''Error running project a.py: disk full'',
            Log ''Running project: c.py'', Ran ''c.py''])"
    by (simp add: project_mode_def l m py_take_def project_body_eq a c)
  then show ?thesis by (simp add: l m)
qed

text \<open>
  C7, amended. In a cycle in project mode with a limit that is not negative, the
  projects that are run are the first \<^verbatim>\<open>max_runs_per_cycle\<close> of the listing, all of
  them and in order, whatever happened to the ones before: an exception of
  \<^verbatim>\<open>run_project_by_name\<close> is caught and logged as \<^verbatim>\<open>Error running project\<close> and
  the projects after it in the slice are still run. The counter that the loop compares
  with the limit counts only the runs that returned; but the runs that raised and the
  runs that returned are together the slice, which is no longer than the limit, so
  that a run that raised has used one of its places.
\<close>

theorem failed_project_does_not_block:
  assumes "0 \<le> max_runs_per_cycle cfg" and "listing_r ce = None"
  shows "\<exists>st' runs tr'.
      project_mode h cfg ce (st, tr) = Inr (st', runs, tr')
    \<and> ran tr' = ran tr @
          map proj_name (py_take (max_runs_per_cycle cfg) (list_projects h (stats ce) st))
    \<and> runs = int (length (filter (\<lambda>(n, out). \<not> isl out)
          (project_runs h ce
             (map proj_name (py_take (max_runs_per_cycle cfg) (list_projects h (stats ce) st)))
             st)))
    \<and> (\<forall>(n, out) \<in> set (project_runs h ce
             (map proj_name (py_take (max_runs_per_cycle cfg) (list_projects h (stats ce) st)))
             st).
          \<forall>x. out = Inl x \<longrightarrow>
            Log (''Error running project '' @ n @ '': '' @ str_exn x) \<in> set tr')
    \<and> py_take (max_runs_per_cycle cfg) (list_projects h (stats ce) st) =
        take (nat (max_runs_per_cycle cfg)) (list_projects h (stats ce) st)
    \<and> runs + int (length (filter (\<lambda>(n, out). isl out)
          (project_runs h ce
             (map proj_name (py_take (max_runs_per_cycle cfg) (list_projects h (stats ce) st)))
             st))) =
        int (length (py_take (max_runs_per_cycle cfg) (list_projects h (stats ce) st)))
    \<and> int (length (py_take (max_runs_per_cycle cfg) (list_projects h (stats ce) st)))
        \<le> max_runs_per_cycle cfg"
proof -
  let ?ps = "py_take (max_runs_per_cycle cfg) (list_projects h (stats ce) st)"
  let ?tr1 = "if list_projects h (stats ce) st = [] \<and> generate_tasks cfg
              then tr @ [Log ''No projects found to run.''] else tr"
  obtain st' runs tr' where
    l: "project_loop h ce (max_runs_per_cycle cfg) ?ps (st, 0, ?tr1) = (st', runs, tr')"
    by (cases "project_loop h ce (max_runs_per_cycle cfg) ?ps (st, 0, ?tr1)") auto
  have m: "project_mode h cfg ce (st, tr) = Inr (st', runs, tr')"
    using assms(2) l by (simp add: project_mode_def Let_def)
  have b: "int (length ?ps) \<le> max_runs_per_cycle cfg"
    using assms(1) by (simp add: py_take_length)
  then have "0 + int (length ?ps) \<le> max_runs_per_cycle cfg" by simp
  from project_loop_no_break[OF this] l
  have "foldl (\<lambda>s p. project_body h ce p s) (st, 0, ?tr1) ?ps = (st', runs, tr')"
    by simp
  note f = foldl_project_body[OF this]
  have r: "ran ?tr1 = ran tr" by (simp add: ran_append)
  have t: "?ps = take (nat (max_runs_per_cycle cfg)) (list_projects h (stats ce) st)"
    using assms(1) by (simp add: py_take_def)
  let ?rs = "project_runs h ce (map proj_name ?ps) st"
  have "length (filter (\<lambda>(n, out). \<not> isl out) ?rs) + length (filter (\<lambda>(n, out). isl out) ?rs) =
        length ?rs"
    by (rule returned_and_raised)
  moreover have "length ?rs = length ?ps" by (simp add: project_runs_length)
  ultimately have s: "runs + int (length (filter (\<lambda>(n, out). isl out) ?rs)) = int (length ?ps)"
    using f by simp
  from f m r b t s show ?thesis by auto
qed

theorem failed_project_does_not_block_witness:
  "\<exists>st' tr'.
      project_mode demo_host (AUTORUN_CONFIG\<lparr>task_mode := ''projects''\<rparr>) demo_cycle_failing
        (demo_store, []) = Inr (st', 1, tr')
    \<and> ran tr' = [''a.py'', ''c.py'']
    \<and> Log ''Error running project a.py: disk full'' \<in> set tr'"
proof -
  let ?cfg = "AUTORUN_CONFIG\<lparr>task_mode := ''projects''\<rparr>"
  have 1: "0 \<le> max_runs_per_cycle ?cfg" by (simp add: AUTORUN_CONFIG_def)
  have 2: "listing_r demo_cycle_failing = None"
    by (simp add: demo_cycle_failing_def demo_cycle_def)
  have 3: "map proj_name (py_take (max_runs_per_cycle ?cfg)
             (list_projects demo_host (stats demo_cycle_failing) demo_store)) = [''a.py'', ''c.py'']"
    by code_simp
  let ?st_a = "AList.update ''/tmp/gary_sandbox_1/a.py'' ''print(1)'' demo_store"
  have a: "run_project_by_name demo_host (run_of demo_cycle_failing ''a.py'') ''a.py'' 10
             demo_store = (Inl (OSError ''disk full''), ?st_a)"
    by (rule demo_failing_run) (simp add: demo_store_def)
  have c: "fst (run_project_by_name demo_host (run_of demo_cycle_failing ''c.py'') ''c.py'' 10
             ?st_a) =
           Inr \<lparr>ok = True, output_text = Some ''hi ZeroDivisionError'', error = None,
                elapsed = Some 2\<rparr>"
    by (rule demo_returning_run[where code = "''print(3)''"]) (simp add: demo_store_def)
  have 5: "project_runs demo_host demo_cycle_failing [''a.py'', ''c.py''] demo_store =
      [(''a.py'', Inl (OSError ''disk full'')),
       (''c.py'', Inr \<lparr>ok = True, output_text = Some ''hi ZeroDivisionError'', error = None,
                         elapsed = Some 2\<rparr>)]"
    by (simp add: a c)
  from failed_project_does_not_block[OF 1 2, of demo_host demo_store "[]", unfolded 3 5]
  show ?thesis by auto
qed




text \<open>
  C9. For every host environment, the environment built by \<^verbatim>\<open>_safe_env\<close> has no key
  outside \<^verbatim>\<open>SYSTEMROOT\<close>, \<^verbatim>\<open>PATH\<close>, \<^verbatim>\<open>TMP\<close>, \<^verbatim>\<open>TEMP\<close> and
  \<^verbatim>\<open>PYTHONUNBUFFERED\<close>, and it is the environment in the arguments of the child of
  both runners. Two host environments that agree on these five variables give the same
  child environment, and then both runners return the same result and leave the same
  files, whatever else the two hosts define.
\<close>

theorem child_environment_allow_list:
  "dom (safe_env enva) \<subseteq> insert ''PYTHONUNBUFFERED'' (set allow_list)
   \<and> arg_env (sandbox_args (h\<lparr>os_environ := enva\<rparr>) script timeout tmpdir) = safe_env enva
   \<and> ((\<forall>k \<in> insert ''PYTHONUNBUFFERED'' (set allow_list). enva k = envb k) \<longrightarrow>
        safe_env enva = safe_env envb \<and>
        run_code_snippet (h\<lparr>os_environ := enva\<rparr>) e code timeout st =
          run_code_snippet (h\<lparr>os_environ := envb\<rparr>) e code timeout st \<and>
        run_project_by_name (h\<lparr>os_environ := enva\<rparr>) e name timeout st =
          run_project_by_name (h\<lparr>os_environ := envb\<rparr>) e name timeout st)"
proof (intro conjI impI)
  show "dom (safe_env enva) \<subseteq> insert ''PYTHONUNBUFFERED'' (set allow_list)"
    by (auto simp: safe_env_apply split: if_splits)
  show "arg_env (sandbox_args (h\<lparr>os_environ := enva\<rparr>) script timeout tmpdir) = safe_env enva"
    by (simp add: sandbox_args_def)
  assume a: "\<forall>k \<in> insert ''PYTHONUNBUFFERED'' (set allow_list). enva k = envb k"
  show s: "safe_env enva = safe_env envb"
  proof
    fix k show "safe_env enva k = safe_env envb k"
      using a by (simp add: safe_env_apply)
  qed
  show "run_code_snippet (h\<lparr>os_environ := enva\<rparr>) e code timeout st =
          run_code_snippet (h\<lparr>os_environ := envb\<rparr>) e code timeout st"
    using s by (rule runs_ignore_host_environment)
  show "run_project_by_name (h\<lparr>os_environ := enva\<rparr>) e name timeout st =
          run_project_by_name (h\<lparr>os_environ := envb\<rparr>) e name timeout st"
    using s by (rule runs_ignore_host_environment)
qed

theorem child_environment_allow_list_witness:
  "safe_env [''PATH'' \<mapsto> ''/bin'', ''API_KEY'' \<mapsto> ''s3cret''] =
     safe_env [''PATH'' \<mapsto> ''/bin'', ''HTTPS_PROXY'' \<mapsto> ''http://proxy'']
   \<and> dom (safe_env [''PATH'' \<mapsto> ''/bin'', ''API_KEY'' \<mapsto> ''s3cret'']) =
       {''PATH'', ''PYTHONUNBUFFERED''}"
proof -
  have "\<forall>k \<in> insert ''PYTHONUNBUFFERED'' (set allow_list).
          [''PATH'' \<mapsto> ''/bin'', ''API_KEY'' \<mapsto> ''s3cret''] k =
          [''PATH'' \<mapsto> ''/bin'', ''HTTPS_PROXY'' \<mapsto> ''http://proxy''] k"
    by (simp add: allow_list_def)
  then have "safe_env [''PATH'' \<mapsto> ''/bin'', ''API_KEY'' \<mapsto> ''s3cret''] =
     safe_env [''PATH'' \<mapsto> ''/bin'', ''HTTPS_PROXY'' \<mapsto> ''http://proxy'']"
    using child_environment_allow_list[where
        enva = "[''PATH'' \<mapsto> ''/bin'', ''API_KEY'' \<mapsto> ''s3cret'']" and
        envb = "[''PATH'' \<mapsto> ''/bin'', ''HTTPS_PROXY'' \<mapsto> ''http://proxy'']"]
    by blast
  moreover have "dom (safe_env [''PATH'' \<mapsto> ''/bin'', ''API_KEY'' \<mapsto> ''s3cret'']) =
       {''PATH'', ''PYTHONUNBUFFERED''}"
    by (auto simp: safe_env_apply allow_list_def split: if_splits)
  ultimately show ?thesis by simp
qed


text \<open>
  C10. When the child is still running at the deadline or cannot be launched, or (for a
  snippet) when the script cannot be written, the result has \<^verbatim>\<open>ok\<close> false and the
  empty string as output: what the child had written by the deadline, which the
  exception carries, is not in the result. \<^verbatim>\<open>run_code_snippet\<close> always returns such
  a result; every result that \<^verbatim>\<open>run_project_by_name\<close> returns is such a result,
  and it returns one whenever its log record can be written. The child of a project is
  started only after the project file was read, the temporary directory made and the
  copy of the script written, which are the hypotheses of the second part.
\<close>

theorem failed_run_has_empty_output:
  "(mkdtemp_r e = Inr tmpdir \<and>
      (script_write_r e = Some x \<or>
       script_write_r e = None \<and>
         (child e (sandbox_args h (pjoin tmpdir ''script.py'') timeout tmpdir) = Hung chunks \<or>
          child e (sandbox_args h (pjoin tmpdir ''script.py'') timeout tmpdir) = Failed x))
    \<longrightarrow> (\<exists>r. fst (run_code_snippet h e code timeout st) = Inr r \<and>
              ok r = False \<and> output_text r = Some []))
   \<and>
   (read_text (read_r e) h st (pjoin (FILES_DIR h) (basename name)) = Inr src \<and>
      mkdtemp_r e = Inr tmpdir \<and> script_write_r e = None \<and>
      (child e (sandbox_args h (pjoin tmpdir (basename name)) timeout tmpdir) = Hung chunks \<or>
       child e (sandbox_args h (pjoin tmpdir (basename name)) timeout tmpdir) = Failed x)
    \<longrightarrow> (\<forall>r. fst (run_project_by_name h e name timeout st) = Inr r \<longrightarrow>
              ok r = False \<and> output_text r = Some [])
        \<and> (log_write_r e = None \<longrightarrow>
              (\<exists>r. fst (run_project_by_name h e name timeout st) = Inr r)))"
proof (intro conjI impI)
  assume a: "mkdtemp_r e = Inr tmpdir \<and>
      (script_write_r e = Some x \<or>
       script_write_r e = None \<and>
         (child e (sandbox_args h (pjoin tmpdir ''script.py'') timeout tmpdir) = Hung chunks \<or>
          child e (sandbox_args h (pjoin tmpdir ''script.py'') timeout tmpdir) = Failed x))"
  then have "script_write_r e = Some x \<or>
     (script_write_r e = None \<and>
      (\<exists>y. launch h e (pjoin tmpdir ''script.py'') timeout tmpdir = Inl y))"
    using launch_hung launch_failed by blast
  with a show "\<exists>r. fst (run_code_snippet h e code timeout st) = Inr r \<and>
              ok r = False \<and> output_text r = Some []"
    by (auto simp: run_code_snippet_fst handler_fields)
next
  assume a: "read_text (read_r e) h st (pjoin (FILES_DIR h) (basename name)) = Inr src \<and>
      mkdtemp_r e = Inr tmpdir \<and> script_write_r e = None \<and>
      (child e (sandbox_args h (pjoin tmpdir (basename name)) timeout tmpdir) = Hung chunks \<or>
       child e (sandbox_args h (pjoin tmpdir (basename name)) timeout tmpdir) = Failed x)"
  then obtain y where l: "launch h e (pjoin tmpdir (basename name)) timeout tmpdir = Inl y"
    using launch_hung launch_failed by blast
  from a have f: "fst (run_project_by_name h e name timeout st) =
      (case log_write_r e of Some x \<Rightarrow> Inl x | None \<Rightarrow> Inr (handler y))"
    by (simp add: run_project_by_name_fst l split: option.splits)
  show "\<forall>r. fst (run_project_by_name h e name timeout st) = Inr r \<longrightarrow>
              ok r = False \<and> output_text r = Some []"
    by (auto simp: f handler_fields split: option.splits)
  show "\<exists>r. fst (run_project_by_name h e name timeout st) = Inr r" if "log_write_r e = None"
    using that by (simp add: f)
qed

theorem failed_run_has_empty_output_witness:
  "(\<exists>r. fst (run_code_snippet demo_host
              (demo_run\<lparr>child := \<lambda>a. Failed (OSError ''Exec format error'')\<rparr>)
              ''print(1)'' 7 []) = Inr r \<and> ok r = False \<and> output_text r = Some [])
   \<and> (\<exists>r. fst (run_project_by_name demo_host
              (demo_run\<lparr>child := \<lambda>a. Hung [(Out, ''partial'')]\<rparr>)
              ''loop.py'' 10 [(''/app/sandbox/files/loop.py'', ''while True: pass'')]) = Inr r \<and>
            ok r = False \<and> output_text r = Some [])"
proof -
  let ?st = "[(''/app/sandbox/files/loop.py'', ''while True: pass'')]"
  have p: "read_text (read_r (demo_run\<lparr>child := \<lambda>a. Hung [(Out, ''partial'')]\<rparr>)) demo_host ?st
             (pjoin (FILES_DIR demo_host) (basename ''loop.py'')) = Inr ''while True: pass''"
    by (simp add: read_text_def FILES_DIR_def SANDBOX_ROOT_def pjoin_def basename_def
          demo_host_def demo_run_def)
  have 1: "\<exists>r. fst (run_code_snippet demo_host
              (demo_run\<lparr>child := \<lambda>a. Failed (OSError ''Exec format error'')\<rparr>)
              ''print(1)'' 7 []) = Inr r \<and> ok r = False \<and> output_text r = Some []"
    using failed_run_has_empty_output[where
        e = "demo_run\<lparr>child := \<lambda>a. Failed (OSError ''Exec format error'')\<rparr>"
        and tmpdir = "''/tmp/gary_sandbox_1''" and h = demo_host and timeout = 7
        and x = "OSError ''Exec format error''" and code = "''print(1)''" and st = "[]"]
    by (simp add: demo_run_def)
  have 2: "\<exists>r. fst (run_project_by_name demo_host
              (demo_run\<lparr>child := \<lambda>a. Hung [(Out, ''partial'')]\<rparr>)
              ''loop.py'' 10 ?st) = Inr r \<and> ok r = False \<and> output_text r = Some []"
    using p failed_run_has_empty_output[where
        e = "demo_run\<lparr>child := \<lambda>a. Hung [(Out, ''partial'')]\<rparr>"
        and tmpdir = "''/tmp/gary_sandbox_1''" and h = demo_host and timeout = 10
        and chunks = "[(Out, ''partial'')]" and name = "''loop.py''" and st = ?st
        and src = "''while True: pass''"]
    by (simp add: demo_run_def) blast
  from 1 2 show ?thesis by blast
qed


end
